theory Spec2Isabelle
  imports Main
begin

section \<open>JavaScript values carried as event payloads\<close>

text \<open>
  The payload of a socket.io event is an arbitrary JSON-like JavaScript value. A handler
  that is called with no argument sees \<open>undefined\<close>.
\<close>

datatype jsval =
    JUndefined
  | JNull
  | JBool bool
  | JNum int
  | JStr string
  | JArr "jsval list"
  | JObj "(string \<times> jsval) list"

datatype error = TypeError

text \<open>
  The property read \<^verbatim>\<open>v.k\<close>. Reading a property of \<open>undefined\<close> or \<open>null\<close> throws a
  TypeError. An object gives the value stored under the name, or \<open>undefined\<close> when the name
  is absent. The names the program reads (\<open>password\<close>, \<open>session_id\<close>, \<open>data\<close>) are not
  properties of any prototype, so on a primitive or an array the read gives \<open>undefined\<close>.
\<close>

fun get_prop :: "jsval \<Rightarrow> string \<Rightarrow> error + jsval" where
  "get_prop JUndefined k = Inl TypeError"
| "get_prop JNull k = Inl TypeError"
| "get_prop (JObj fs) k = Inr (case map_of fs k of None \<Rightarrow> JUndefined | Some v \<Rightarrow> v)"
| "get_prop v k = Inr JUndefined"

fun field_names :: "jsval \<Rightarrow> string list" where
  "field_names (JObj fs) = map fst fs"
| "field_names v = []"

section \<open>The relay: state and emitted events\<close>

type_synonym socket_id = string

record upstream =
  connected :: bool

text \<open>
  \<open>sockets\<close> is the set of browser sockets currently connected to the server \<open>io\<close>;
  \<open>authenticatedClients\<close> is the program's global Set; \<open>termuxSocket\<close> is the global
  variable, \<open>None\<close> while it is still undefined.
\<close>

record relay =
  sockets :: "socket_id set"
  authenticatedClients :: "socket_id set"
  termuxSocket :: "upstream option"

text \<open>
  The three ways the relay emits an event: \<^verbatim>\<open>io.emit\<close> (to every connected browser
  socket), \<^verbatim>\<open>socket.emit\<close> (to one browser socket) and \<^verbatim>\<open>termuxSocket.emit\<close> (upstream).
  Each carries the event name and the argument list.
\<close>

datatype emit =
    IoEmit string "jsval list"
  | SocketEmit socket_id string "jsval list"
  | TermuxEmit string "jsval list"

type_synonym outcome = "error + (emit list \<times> relay)"

definition PASSWORD :: string where
  "PASSWORD = ''123456789''"

definition initial :: relay where
  "initial = \<lparr>sockets = {}, authenticatedClients = {}, termuxSocket = None\<rparr>"

text \<open>\<^verbatim>\<open>termuxSocket && termuxSocket.connected\<close>\<close>

definition termux_connected :: "relay \<Rightarrow> bool" where
  "termux_connected st = (case termuxSocket st of None \<Rightarrow> False | Some u \<Rightarrow> connected u)"

subsection \<open>connectToTermux and the upstream listeners\<close>

text \<open>
  \<^verbatim>\<open>connectToTermux\<close> creates the client socket, not yet connected, and registers the
  three listeners below. The client library sets \<open>connected\<close> before it fires
  \<open>connect\<close> and clears it before it fires \<open>disconnect\<close>.
\<close>

definition connectToTermux :: "relay \<Rightarrow> relay" where
  "connectToTermux st = st\<lparr>termuxSocket := Some \<lparr>connected = False\<rparr>\<rparr>"

definition termux_on_connect :: "relay \<Rightarrow> emit list \<times> relay" where
  "termux_on_connect st = ([IoEmit ''backend_status'' [JObj [(''connected'', JBool True)]]], st)"

definition termux_on_disconnect :: "relay \<Rightarrow> emit list \<times> relay" where
  "termux_on_disconnect st = ([IoEmit ''backend_status'' [JObj [(''connected'', JBool False)]]], st)"

definition termux_on_output :: "relay \<Rightarrow> jsval \<Rightarrow> emit list \<times> relay" where
  "termux_on_output st data = ([IoEmit ''output'' [data]], st)"

subsection \<open>The listeners of a browser socket\<close>

text \<open>\<^verbatim>\<open>socket.on('disconnect')\<close>\<close>

definition on_disconnect :: "relay \<Rightarrow> socket_id \<Rightarrow> relay" where
  "on_disconnect st sid = st\<lparr>authenticatedClients := authenticatedClients st - {sid}\<rparr>"

text \<open>
  \<^verbatim>\<open>socket.disconnect()\<close> of the server library: nothing when the socket is not connected;
  otherwise the socket leaves the server's set and its \<open>disconnect\<close> listener runs, all
  within the call.
\<close>

definition socket_disconnect :: "relay \<Rightarrow> socket_id \<Rightarrow> relay" where
  "socket_disconnect st sid =
     (if sid \<in> sockets st then on_disconnect (st\<lparr>sockets := sockets st - {sid}\<rparr>) sid else st)"

definition on_authenticate :: "relay \<Rightarrow> socket_id \<Rightarrow> jsval \<Rightarrow> outcome" where
  "on_authenticate st sid data =
     (case get_prop data ''password'' of
        Inl e \<Rightarrow> Inl e
      | Inr p \<Rightarrow>
          if p = JStr PASSWORD then
            Inr ([SocketEmit sid ''auth_success'' []],
                 st\<lparr>authenticatedClients := insert sid (authenticatedClients st)\<rparr>)
          else
            Inr ([SocketEmit sid ''auth_failed'' [JObj [(''message'', JStr ''Invalid password'')]]],
                 socket_disconnect st sid))"

definition on_new_session :: "relay \<Rightarrow> socket_id \<Rightarrow> jsval \<Rightarrow> outcome" where
  "on_new_session st sid data =
     (if sid \<notin> authenticatedClients st then Inr ([], st)
      else if termux_connected st then Inr ([TermuxEmit ''new_session'' [data]], st)
      else Inr ([], st))"

definition on_input :: "relay \<Rightarrow> socket_id \<Rightarrow> jsval \<Rightarrow> outcome" where
  "on_input st sid data =
     (if sid \<notin> authenticatedClients st then Inr ([], st)
      else if termux_connected st then Inr ([TermuxEmit ''input'' [data]], st)
      else Inr ([], st))"

definition on_resize :: "relay \<Rightarrow> socket_id \<Rightarrow> jsval \<Rightarrow> outcome" where
  "on_resize st sid data =
     (if sid \<notin> authenticatedClients st then Inr ([], st)
      else if termux_connected st then Inr ([TermuxEmit ''resize'' [data]], st)
      else Inr ([], st))"

definition on_signal :: "relay \<Rightarrow> socket_id \<Rightarrow> jsval \<Rightarrow> outcome" where
  "on_signal st sid data =
     (if sid \<notin> authenticatedClients st then Inr ([], st)
      else if termux_connected st then Inr ([TermuxEmit ''signal'' [data]], st)
      else Inr ([], st))"

definition on_close_session :: "relay \<Rightarrow> socket_id \<Rightarrow> jsval \<Rightarrow> outcome" where
  "on_close_session st sid data =
     (if sid \<notin> authenticatedClients st then Inr ([], st)
      else if termux_connected st then Inr ([TermuxEmit ''close_session'' [data]], st)
      else Inr ([], st))"

text \<open>
  The listener table that \<^verbatim>\<open>io.on('connection')\<close> registers on each socket with
  \<^verbatim>\<open>socket.on\<close>; an event with no listener is dropped by the library.
\<close>

definition socket_on :: "string \<Rightarrow> (relay \<Rightarrow> socket_id \<Rightarrow> jsval \<Rightarrow> outcome) option" where
  "socket_on ev =
     (if ev = ''authenticate'' then Some on_authenticate
      else if ev = ''new_session'' then Some on_new_session
      else if ev = ''input'' then Some on_input
      else if ev = ''resize'' then Some on_resize
      else if ev = ''signal'' then Some on_signal
      else if ev = ''close_session'' then Some on_close_session
      else None)"

definition receive :: "relay \<Rightarrow> socket_id \<Rightarrow> string \<Rightarrow> jsval \<Rightarrow> outcome" where
  "receive st sid ev data =
     (case socket_on ev of None \<Rightarrow> Inr ([], st) | Some h \<Rightarrow> h st sid data)"

definition control_events :: "string list" where
  "control_events = [''new_session'', ''input'', ''resize'', ''signal'', ''close_session'']"

subsection \<open>What the relay reacts to\<close>

datatype event =
    Connection socket_id
  | Downstream socket_id string jsval
  | TransportClose socket_id
  | TermuxConnect
  | TermuxConnectError
  | TermuxDisconnect
  | TermuxOutput jsval

text \<open>
  One reaction of the relay. A browser socket is known to the server from its
  \<open>connection\<close> event until it disconnects; only a connected socket delivers events.
  An exception thrown by a listener is not caught anywhere in the program.
  \<open>TermuxConnectError\<close> is a connection attempt of the upstream socket that fails: the
  client library fires \<open>connect_error\<close> and will try again after the reconnection delay.
  The program registers no listener for it, and the socket's \<open>connected\<close> flag, off
  during the attempt, stays off.
\<close>

fun step :: "relay \<Rightarrow> event \<Rightarrow> outcome" where
  "step st (Connection sid) = Inr ([], st\<lparr>sockets := insert sid (sockets st)\<rparr>)"
| "step st (Downstream sid ev data) =
     (if sid \<in> sockets st then receive st sid ev data else Inr ([], st))"
| "step st (TransportClose sid) = Inr ([], socket_disconnect st sid)"
| "step st TermuxConnect =
     Inr (termux_on_connect (st\<lparr>termuxSocket := Some \<lparr>connected = True\<rparr>\<rparr>))"
| "step st TermuxConnectError = Inr ([], st)"
| "step st TermuxDisconnect =
     Inr (termux_on_disconnect (st\<lparr>termuxSocket := Some \<lparr>connected = False\<rparr>\<rparr>))"
| "step st (TermuxOutput data) = Inr (termux_on_output st data)"

fun run :: "relay \<Rightarrow> event list \<Rightarrow> error + relay" where
  "run st [] = Inr st"
| "run st (e # es) = (case step st e of Inl err \<Rightarrow> Inl err | Inr (out, st') \<Rightarrow> run st' es)"

text \<open>
  The events one browser socket \<open>c\<close> receives from a list of emits, when \<open>socks\<close> are the
  sockets connected to the server as the emits are made: \<^verbatim>\<open>io.emit\<close> reaches each of
  them, \<^verbatim>\<open>socket.emit\<close> its own socket if it is connected, and an upstream emit none.
\<close>

fun delivered :: "socket_id set \<Rightarrow> socket_id \<Rightarrow> emit list \<Rightarrow> (string \<times> jsval list) list" where
  "delivered socks c [] = []"
| "delivered socks c (IoEmit ev args # es) =
     (if c \<in> socks then [(ev, args)] else []) @ delivered socks c es"
| "delivered socks c (SocketEmit sid ev args # es) =
     (if c = sid \<and> c \<in> socks then [(ev, args)] else []) @ delivered socks c es"
| "delivered socks c (TermuxEmit ev args # es) = delivered socks c es"

definition count_event :: "string \<Rightarrow> (string \<times> jsval list) list \<Rightarrow> nat" where
  "count_event ev xs = length (filter (\<lambda>x. fst x = ev) xs)"

text \<open>The events sent upstream by a list of emits.\<close>

fun upstream_sent :: "emit list \<Rightarrow> (string \<times> jsval list) list" where
  "upstream_sent [] = []"
| "upstream_sent (TermuxEmit ev args # es) = (ev, args) # upstream_sent es"
| "upstream_sent (e # es) = upstream_sent es"

section \<open>The embedded browser client\<close>

text \<open>
  The page served at \<open>/\<close> holds the client. Each function below gives the event the client
  emits, with its payload, or nothing when the client returns before emitting.
  \<open>createTerminal\<close> takes the identifier that \<open>generateId\<close> drew.
\<close>

definition login_emit :: "string \<Rightarrow> string \<times> jsval" where
  "login_emit password = (''authenticate'', JObj [(''password'', JStr password)])"

definition createTerminal :: "bool \<Rightarrow> bool \<Rightarrow> string \<Rightarrow> (string \<times> jsval) option" where
  "createTerminal socket_connected authenticated sessionId =
     (if \<not> socket_connected \<or> \<not> authenticated then None
      else Some (''new_session'', JObj [(''session_id'', JStr sessionId)]))"

definition onData :: "string \<Rightarrow> string \<Rightarrow> string \<times> jsval" where
  "onData sessionId data =
     (if data = [CHR 0x03]
      then (''signal'', JObj [(''session_id'', JStr sessionId), (''signal'', JNum 2)])
      else (''input'', JObj [(''session_id'', JStr sessionId), (''data'', JStr data)]))"

definition onResize :: "string \<Rightarrow> int \<Rightarrow> int \<Rightarrow> string \<times> jsval" where
  "onResize sessionId rows cols =
     (''resize'', JObj [(''session_id'', JStr sessionId), (''rows'', JNum rows), (''cols'', JNum cols)])"

definition closeTerminal :: "nat \<Rightarrow> string \<Rightarrow> (string \<times> jsval) option" where
  "closeTerminal terminal_count sessionId =
     (if terminal_count = 1 then None
      else Some (''close_session'', JObj [(''session_id'', JStr sessionId)]))"

text \<open>
  The client's table \<open>terminals\<close> is a plain object. What \<^verbatim>\<open>terminals[k]\<close> gives is
  nothing (\<open>undefined\<close>), or an entry that \<open>createTerminal\<close> stored, which has an
  \<open>xterm\<close>, or a member the object inherits from its prototype (under \<open>constructor\<close>,
  \<open>toString\<close>, \<open>__proto__\<close> and the like), which is truthy and has no \<open>xterm\<close>.
\<close>

datatype 't slot = Terminal 't | Inherited

text \<open>
  The client's \<open>output\<close> listener: \<^verbatim>\<open>term = terminals[data.session_id]\<close>, and when
  \<open>term\<close> is truthy, \<^verbatim>\<open>term.xterm.write(data.data)\<close>. \<open>terminals\<close> gives
  \<^verbatim>\<open>terminals[k]\<close> for each JavaScript value \<open>k\<close>. The result is the terminal written to
  and the value written, or nothing; on an inherited member \<open>term.xterm\<close> is
  \<open>undefined\<close> and the call of its \<open>write\<close> throws.
\<close>

definition client_on_output :: "(jsval \<Rightarrow> 't slot option) \<Rightarrow> jsval \<Rightarrow> error + ('t \<times> jsval) option" where
  "client_on_output terminals data =
     (case get_prop data ''session_id'' of
        Inl e \<Rightarrow> Inl e
      | Inr k \<Rightarrow>
          (case terminals k of
             None \<Rightarrow> Inr None
           | Some Inherited \<Rightarrow> Inl TypeError
           | Some (Terminal term) \<Rightarrow>
               (case get_prop data ''data'' of
                  Inl e \<Rightarrow> Inl e
                | Inr v \<Rightarrow> Inr (Some (term, v)))))"

section \<open>Basic facts\<close>

lemma receive_control:
  assumes "ev \<in> set control_events"
  shows "receive st sid ev data =
           Inr (if sid \<in> authenticatedClients st \<and> termux_connected st
                then [TermuxEmit ev [data]] else [], st)"
  using assms
  by (auto simp: control_events_def receive_def socket_on_def on_new_session_def
      on_input_def on_resize_def on_signal_def on_close_session_def)

lemma receive_authenticate:
  "receive st sid ''authenticate'' data = on_authenticate st sid data"
  by (simp add: receive_def socket_on_def)

text \<open>
  \<open>authenticate\<close> is the one listener that reads its payload. Called with no payload, or
  with \<open>null\<close>, it throws before it emits anything.
\<close>

lemma authenticate_without_payload:
  "receive st sid ''authenticate'' JUndefined = Inl TypeError"
  "receive st sid ''authenticate'' JNull = Inl TypeError"
  by (simp_all add: receive_authenticate on_authenticate_def)

lemma socket_disconnect_sockets:
  "sockets (socket_disconnect st sid) = sockets st - {sid}"
  by (simp add: socket_disconnect_def on_disconnect_def)

lemma socket_disconnect_authenticated:
  "authenticatedClients (socket_disconnect st sid) =
     (if sid \<in> sockets st then authenticatedClients st - {sid} else authenticatedClients st)"
  by (simp add: socket_disconnect_def on_disconnect_def)

lemma socket_disconnect_termux:
  "termuxSocket (socket_disconnect st sid) = termuxSocket st"
  by (simp add: socket_disconnect_def on_disconnect_def)

subsection \<open>Only connected sockets are ever authenticated\<close>

lemma step_authenticated_connected:
  assumes "authenticatedClients st \<subseteq> sockets st"
    and "step st e = Inr (out, st')"
  shows "authenticatedClients st' \<subseteq> sockets st'"
proof (cases e)
  case (Connection sid)
  with assms show ?thesis by auto
next
  case (Downstream sid ev data)
  show ?thesis
  proof (cases "sid \<in> sockets st")
    case False
    with assms Downstream show ?thesis by auto
  next
    case connected: True
    show ?thesis
    proof (cases "ev = ''authenticate''")
      case True
      with assms Downstream connected show ?thesis
        by (auto simp: receive_authenticate on_authenticate_def socket_disconnect_sockets
            socket_disconnect_authenticated split: sum.splits if_splits)
    next
      case False
      then have "\<exists>out. receive st sid ev data = Inr (out, st)"
        by (auto simp: receive_def socket_on_def on_new_session_def on_input_def
            on_resize_def on_signal_def on_close_session_def)
      with assms Downstream connected show ?thesis by auto
    qed
  qed
next
  case (TransportClose sid)
  with assms show ?thesis
    by (auto simp: socket_disconnect_sockets socket_disconnect_authenticated split: if_splits)
next
  case TermuxConnect
  with assms show ?thesis by (auto simp: termux_on_connect_def)
next
  case TermuxConnectError
  with assms show ?thesis by auto
next
  case TermuxDisconnect
  with assms show ?thesis by (auto simp: termux_on_disconnect_def)
next
  case (TermuxOutput data)
  with assms show ?thesis by (auto simp: termux_on_output_def)
qed

lemma run_authenticated_connected:
  "authenticatedClients st \<subseteq> sockets st \<Longrightarrow> run st es = Inr st' \<Longrightarrow>
   authenticatedClients st' \<subseteq> sockets st'"
proof (induction es arbitrary: st)
  case Nil
  then show ?case by simp
next
  case (Cons e es)
  from Cons.prems(2) obtain out st1 where s: "step st e = Inr (out, st1)" and r: "run st1 es = Inr st'"
    by (auto split: sum.splits)
  from step_authenticated_connected [OF Cons.prems(1) s] have "authenticatedClients st1 \<subseteq> sockets st1" .
  from Cons.IH [OF this r] show ?case .
qed


section \<open>Properties of the relay\<close>

subsection \<open>Output from the backend\<close>

text \<open>
  The listener for \<open>output\<close> hands the payload to \<^verbatim>\<open>io.emit\<close>, so every connected browser
  socket receives it once, whatever the authorization set holds.
\<close>

lemma output_delivered_to_every_socket:
  assumes "c \<in> sockets st"
  shows "\<exists>out. step st (TermuxOutput data) = Inr (out, st) \<and>
           delivered (sockets st) c out = [(''output'', [data])]"
  using assms by (simp add: termux_on_output_def)

text \<open>
  C1. Claim: an \<open>output\<close> event from the backend goes to every connection of the
  authorization set and to no unauthenticated connection. The run below starts the relay,
  connects the browser sockets A and B, authenticates A only and brings the upstream link
  up. In the state reached, B is not in the authorization set, and the \<open>output\<close> event
  \<open>{session_id: "s1", data: "file1\n"}\<close> from the backend is delivered to B all the same.
\<close>

theorem output_reaches_unauthenticated_socket:
  "run (connectToTermux initial)
     [Connection ''A'', Connection ''B'',
      Downstream ''A'' ''authenticate'' (JObj [(''password'', JStr ''123456789'')]),
      TermuxConnect,
      Downstream ''A'' ''new_session'' (JObj [(''session_id'', JStr ''s1'')])]
     = Inr \<lparr>sockets = {''A'', ''B''}, authenticatedClients = {''A''},
            termuxSocket = Some \<lparr>connected = True\<rparr>\<rparr>
   \<and> ''B'' \<notin> authenticatedClients \<lparr>sockets = {''A'', ''B''}, authenticatedClients = {''A''},
            termuxSocket = Some \<lparr>connected = True\<rparr>\<rparr>
   \<and> step \<lparr>sockets = {''A'', ''B''}, authenticatedClients = {''A''},
            termuxSocket = Some \<lparr>connected = True\<rparr>\<rparr>
         (TermuxOutput (JObj [(''session_id'', JStr ''s1''), (''data'', JStr ''file1\<newline>'')]))
     = Inr ([IoEmit ''output'' [JObj [(''session_id'', JStr ''s1''), (''data'', JStr ''file1\<newline>'')]]],
            \<lparr>sockets = {''A'', ''B''}, authenticatedClients = {''A''},
             termuxSocket = Some \<lparr>connected = True\<rparr>\<rparr>)
   \<and> delivered {''A'', ''B''} ''B''
         [IoEmit ''output'' [JObj [(''session_id'', JStr ''s1''), (''data'', JStr ''file1\<newline>'')]]]
     = [(''output'', [JObj [(''session_id'', JStr ''s1''), (''data'', JStr ''file1\<newline>'')]])]"
  by (simp add: initial_def connectToTermux_def receive_def socket_on_def on_authenticate_def
      PASSWORD_def on_new_session_def termux_connected_def termux_on_connect_def
      termux_on_output_def insert_commute)


subsection \<open>Control events and the authorization set\<close>

text \<open>
  C2. For each of the five control events, the listener answers without an error; it sends
  something upstream only if the sending socket is in the authorization set when the
  event is handled; and for a sender outside the set it emits nothing at all (nothing
  upstream, nothing back to the sender) and leaves the relay state as it was.
\<close>

theorem control_event_requires_authentication:
  assumes "ev \<in> set control_events"
  shows "\<exists>out st'. receive st sid ev data = Inr (out, st') \<and>
           (upstream_sent out \<noteq> [] \<longrightarrow> sid \<in> authenticatedClients st) \<and>
           (sid \<notin> authenticatedClients st \<longrightarrow>
              out = [] \<and> st' = st \<and> delivered (sockets st) sid out = [])"
  using receive_control [OF assms, of st sid data] by auto

theorem control_event_requires_authentication_witness:
  "''input'' \<in> set control_events
   \<and> ''c1'' \<notin> authenticatedClients
        \<lparr>sockets = {''c1''}, authenticatedClients = {}, termuxSocket = Some \<lparr>connected = True\<rparr>\<rparr>
   \<and> receive \<lparr>sockets = {''c1''}, authenticatedClients = {}, termuxSocket = Some \<lparr>connected = True\<rparr>\<rparr>
        ''c1'' ''input'' (JObj [(''session_id'', JStr ''s1''), (''data'', JStr ''ls'')])
      = Inr ([], \<lparr>sockets = {''c1''}, authenticatedClients = {}, termuxSocket = Some \<lparr>connected = True\<rparr>\<rparr>)"
proof -
  have ev: "''input'' \<in> set control_events"
    by (simp add: control_events_def)
  from control_event_requires_authentication [OF ev,
      of "\<lparr>sockets = {''c1''}, authenticatedClients = {}, termuxSocket = Some \<lparr>connected = True\<rparr>\<rparr>"
         "''c1''" "JObj [(''session_id'', JStr ''s1''), (''data'', JStr ''ls'')]"]
  show ?thesis using ev by auto
qed

subsection \<open>Authentication\<close>

text \<open>
  An \<open>authenticate\<close> event from a connected socket whose payload has a readable
  \<open>password\<close> field, of value \<open>p\<close> (\<open>undefined\<close> when the field is missing). If \<open>p\<close> is
  the shared secret, the socket is added to the authorization set, stays connected, and
  receives exactly one \<open>auth_success\<close> and no \<open>auth_failed\<close>. Otherwise it receives
  exactly one \<open>auth_failed\<close> and no \<open>auth_success\<close>, and the relay disconnects the
  socket.
\<close>

lemma authenticate_reply:
  assumes "sid \<in> sockets st" and "get_prop data ''password'' = Inr p"
  shows "\<exists>out st'. receive st sid ''authenticate'' data = Inr (out, st') \<and>
           (p = JStr PASSWORD \<longrightarrow>
              authenticatedClients st' = insert sid (authenticatedClients st) \<and>
              sockets st' = sockets st \<and>
              count_event ''auth_success'' (delivered (sockets st) sid out) = 1 \<and>
              count_event ''auth_failed'' (delivered (sockets st) sid out) = 0) \<and>
           (p \<noteq> JStr PASSWORD \<longrightarrow>
              count_event ''auth_failed'' (delivered (sockets st) sid out) = 1 \<and>
              count_event ''auth_success'' (delivered (sockets st) sid out) = 0 \<and>
              sockets st' = sockets st - {sid})"
  using assms
  by (simp add: receive_authenticate on_authenticate_def count_event_def
      socket_disconnect_sockets)

text \<open>
  C3. Claim: every \<open>authenticate\<close> event with a credential other than the shared secret
  is answered with exactly one \<open>auth_failed\<close> and the closing of the connection. Socket
  \<open>c1\<close> connects and sends \<open>authenticate\<close> with the payload \<open>null\<close>, or with no
  payload at all: the listener throws a TypeError on reading \<open>data.password\<close>. No
  \<open>auth_failed\<close> is emitted and the socket is not disconnected; the exception is caught
  nowhere, so the run of the relay ends with it.
\<close>

theorem authenticate_null_payload_throws:
  "step \<lparr>sockets = {''c1''}, authenticatedClients = {}, termuxSocket = Some \<lparr>connected = False\<rparr>\<rparr>
     (Downstream ''c1'' ''authenticate'' JNull) = Inl TypeError
   \<and> step \<lparr>sockets = {''c1''}, authenticatedClients = {}, termuxSocket = Some \<lparr>connected = False\<rparr>\<rparr>
     (Downstream ''c1'' ''authenticate'' JUndefined) = Inl TypeError
   \<and> run (connectToTermux initial) [Connection ''c1'', Downstream ''c1'' ''authenticate'' JNull]
     = Inl TypeError
   \<and> run (connectToTermux initial)
       [Connection ''c1'', Downstream ''c1'' ''authenticate'' (JObj [(''password'', JStr ''letmein'')])]
     = Inr \<lparr>sockets = {}, authenticatedClients = {}, termuxSocket = Some \<lparr>connected = False\<rparr>\<rparr>"
  by (simp add: initial_def connectToTermux_def receive_def socket_on_def on_authenticate_def
      PASSWORD_def socket_disconnect_def on_disconnect_def)




subsection \<open>Forwarding upstream\<close>

text \<open>
  C5. While the upstream link is not connected (the client socket does not exist yet, or
  its \<open>connected\<close> flag is off), a control event from any socket is dropped: the listener
  answers without an error, emits nothing, and leaves the whole relay state, the upstream
  link included, as it was.
\<close>

theorem control_event_dropped_while_not_connected:
  assumes "\<not> termux_connected st" and "ev \<in> set control_events"
  shows "receive st sid ev data = Inr ([], st) \<and>
         step st (Downstream sid ev data) = Inr ([], st)"
  using assms by (simp add: receive_control)

theorem control_event_dropped_while_not_connected_witness:
  "\<not> termux_connected
       \<lparr>sockets = {''c1''}, authenticatedClients = {''c1''}, termuxSocket = Some \<lparr>connected = False\<rparr>\<rparr>
   \<and> ''input'' \<in> set control_events
   \<and> step \<lparr>sockets = {''c1''}, authenticatedClients = {''c1''}, termuxSocket = Some \<lparr>connected = False\<rparr>\<rparr>
        (Downstream ''c1'' ''input'' (JObj [(''session_id'', JStr ''s1''), (''data'', JStr ''ls'')]))
      = Inr ([], \<lparr>sockets = {''c1''}, authenticatedClients = {''c1''},
                  termuxSocket = Some \<lparr>connected = False\<rparr>\<rparr>)"
proof -
  have down: "\<not> termux_connected
       \<lparr>sockets = {''c1''}, authenticatedClients = {''c1''}, termuxSocket = Some \<lparr>connected = False\<rparr>\<rparr>"
    by (simp add: termux_connected_def)
  have ev: "''input'' \<in> set control_events"
    by (simp add: control_events_def)
  from control_event_dropped_while_not_connected [OF down ev] down ev
  show ?thesis by blast
qed

text \<open>
  C7. For each of the five control events, when the sender is in the authorization set
  and the upstream link is connected, the listener emits upstream one event of the same
  name whose only argument is the payload it received, whatever that payload is, and
  changes no state. Nothing about the payload or about known sessions is consulted.
\<close>

theorem control_event_forwarded_verbatim:
  assumes "ev \<in> set control_events" and "sid \<in> authenticatedClients st"
    and "termux_connected st"
  shows "receive st sid ev data = Inr ([TermuxEmit ev [data]], st) \<and>
         upstream_sent [TermuxEmit ev [data]] = [(ev, [data])]"
  using assms by (simp add: receive_control)

theorem control_event_forwarded_verbatim_witness:
  "''resize'' \<in> set control_events
   \<and> ''c1'' \<in> authenticatedClients
        \<lparr>sockets = {''c1''}, authenticatedClients = {''c1''}, termuxSocket = Some \<lparr>connected = True\<rparr>\<rparr>
   \<and> termux_connected
        \<lparr>sockets = {''c1''}, authenticatedClients = {''c1''}, termuxSocket = Some \<lparr>connected = True\<rparr>\<rparr>
   \<and> receive \<lparr>sockets = {''c1''}, authenticatedClients = {''c1''}, termuxSocket = Some \<lparr>connected = True\<rparr>\<rparr>
        ''c1'' ''resize'' (JObj [(''session_id'', JStr ''s1''), (''rows'', JNum 24), (''cols'', JNum 80)])
      = Inr ([TermuxEmit ''resize''
                [JObj [(''session_id'', JStr ''s1''), (''rows'', JNum 24), (''cols'', JNum 80)]]],
             \<lparr>sockets = {''c1''}, authenticatedClients = {''c1''},
              termuxSocket = Some \<lparr>connected = True\<rparr>\<rparr>)"
proof -
  have ev: "''resize'' \<in> set control_events"
    by (simp add: control_events_def)
  have a: "''c1'' \<in> authenticatedClients
        \<lparr>sockets = {''c1''}, authenticatedClients = {''c1''}, termuxSocket = Some \<lparr>connected = True\<rparr>\<rparr>"
    by simp
  have up: "termux_connected
        \<lparr>sockets = {''c1''}, authenticatedClients = {''c1''}, termuxSocket = Some \<lparr>connected = True\<rparr>\<rparr>"
    by (simp add: termux_connected_def)
  from control_event_forwarded_verbatim [OF ev a up] ev a up
  show ?thesis by blast
qed

text \<open>
  C10. For each of the five control events and every payload, \<open>undefined\<close> included, the
  listener answers without an error and without changing the state: it either emits
  nothing or emits the payload upstream as it came. Whether it drops the event does not
  depend on the payload, which it never inspects.
\<close>

theorem control_listener_never_throws:
  assumes "ev \<in> set control_events"
  shows "(receive st sid ev data = Inr ([], st) \<or>
          receive st sid ev data = Inr ([TermuxEmit ev [data]], st)) \<and>
         (receive st sid ev data = Inr ([], st)) = (receive st sid ev data' = Inr ([], st))"
  using assms by (simp add: receive_control)

theorem control_listener_never_throws_witness:
  "''close_session'' \<in> set control_events
   \<and> receive \<lparr>sockets = {''c1''}, authenticatedClients = {''c1''}, termuxSocket = Some \<lparr>connected = True\<rparr>\<rparr>
        ''c1'' ''close_session'' JUndefined
      = Inr ([TermuxEmit ''close_session'' [JUndefined]],
             \<lparr>sockets = {''c1''}, authenticatedClients = {''c1''},
              termuxSocket = Some \<lparr>connected = True\<rparr>\<rparr>)"
proof -
  have ev: "''close_session'' \<in> set control_events"
    by (simp add: control_events_def)
  from control_listener_never_throws [OF ev,
      of "\<lparr>sockets = {''c1''}, authenticatedClients = {''c1''}, termuxSocket = Some \<lparr>connected = True\<rparr>\<rparr>"
         "''c1''" JUndefined JUndefined] ev
  show ?thesis
    by (auto simp: receive_def socket_on_def on_close_session_def termux_connected_def)
qed


subsection \<open>Upstream link status\<close>

lemma receive_termuxSocket:
  assumes "receive st sid ev data = Inr (out, st')"
  shows "termuxSocket st' = termuxSocket st"
proof (cases "ev = ''authenticate''")
  case True
  with assms show ?thesis
    by (auto simp: receive_authenticate on_authenticate_def socket_disconnect_termux
        split: sum.splits if_splits)
next
  case False
  then have "\<exists>out. receive st sid ev data = Inr (out, st)"
    by (auto simp: receive_def socket_on_def on_new_session_def on_input_def
        on_resize_def on_signal_def on_close_session_def)
  with assms show ?thesis by auto
qed

lemma step_link_change:
  assumes "step st e = Inr (out, st')"
    and "termux_connected st' \<noteq> termux_connected st"
  shows "out = [IoEmit ''backend_status'' [JObj [(''connected'', JBool (termux_connected st'))]]]"
proof (cases e)
  case (Connection sid)
  with assms show ?thesis by (auto simp: termux_connected_def)
next
  case (Downstream sid ev data)
  with assms have "termuxSocket st' = termuxSocket st"
    by (auto dest: receive_termuxSocket split: if_splits)
  with assms(2) show ?thesis by (simp add: termux_connected_def)
next
  case (TransportClose sid)
  with assms show ?thesis by (auto simp: termux_connected_def socket_disconnect_termux)
next
  case TermuxConnect
  with assms show ?thesis by (auto simp: termux_on_connect_def termux_connected_def)
next
  case TermuxConnectError
  with assms show ?thesis by auto
next
  case TermuxDisconnect
  with assms show ?thesis by (auto simp: termux_on_disconnect_def termux_connected_def)
next
  case (TermuxOutput data)
  with assms show ?thesis by (auto simp: termux_on_output_def)
qed

text \<open>
  C6, as claimed: every transition of the upstream link into \<open>connected\<close> or into
  \<open>disconnected\<close> broadcasts one \<open>backend_status\<close>. The link's transitions include
  \<open>connecting\<close> to \<open>disconnected\<close> on a failed attempt. The run below starts the relay,
  which begins its first attempt, and connects the browser sockets A and B; the attempt
  then fails. The relay emits nothing: neither A nor B receives a \<open>backend_status\<close>.
\<close>

theorem failed_attempt_broadcasts_nothing:
  "run (connectToTermux initial)
     [Connection ''A'', Connection ''B'',
      Downstream ''A'' ''authenticate'' (JObj [(''password'', JStr ''123456789'')])]
     = Inr \<lparr>sockets = {''A'', ''B''}, authenticatedClients = {''A''},
            termuxSocket = Some \<lparr>connected = False\<rparr>\<rparr>
   \<and> step \<lparr>sockets = {''A'', ''B''}, authenticatedClients = {''A''},
            termuxSocket = Some \<lparr>connected = False\<rparr>\<rparr> TermuxConnectError
     = Inr ([], \<lparr>sockets = {''A'', ''B''}, authenticatedClients = {''A''},
                 termuxSocket = Some \<lparr>connected = False\<rparr>\<rparr>)
   \<and> delivered {''A'', ''B''} ''A'' [] = []
   \<and> delivered {''A'', ''B''} ''B'' [] = []"
  by (simp add: initial_def connectToTermux_def receive_def socket_on_def on_authenticate_def
      PASSWORD_def insert_commute)

text \<open>
  C6, amended. When the upstream socket fires \<open>connect\<close>, the link is connected
  afterwards and every browser socket connected to the server, in the authorization set
  or not, receives exactly one event, \<open>backend_status {connected: true}\<close>; when it fires
  \<open>disconnect\<close>, the link is not connected afterwards and each receives exactly one
  \<open>backend_status {connected: false}\<close>. And whatever the relay reacts to, if the link's
  connected flag differs before and after, each connected browser socket receives
  exactly one \<open>backend_status\<close> carrying the new flag. A connection attempt that
  fails changes nothing and emits nothing.
\<close>

theorem backend_status_broadcast:
  "(\<exists>out st'. step st TermuxConnect = Inr (out, st') \<and> termux_connected st' \<and>
       sockets st' = sockets st \<and>
       (\<forall>c \<in> sockets st. delivered (sockets st) c out =
          [(''backend_status'', [JObj [(''connected'', JBool True)]])])) \<and>
   (\<exists>out st'. step st TermuxDisconnect = Inr (out, st') \<and> \<not> termux_connected st' \<and>
       sockets st' = sockets st \<and>
       (\<forall>c \<in> sockets st. delivered (sockets st) c out =
          [(''backend_status'', [JObj [(''connected'', JBool False)]])])) \<and>
   (\<forall>e out st'. step st e = Inr (out, st') \<and> termux_connected st' \<noteq> termux_connected st \<longrightarrow>
       (\<forall>c \<in> sockets st. delivered (sockets st) c out =
          [(''backend_status'', [JObj [(''connected'', JBool (termux_connected st'))]])])) \<and>
   step st TermuxConnectError = Inr ([], st)"
proof (intro conjI allI impI)
  show "\<exists>out st'. step st TermuxConnect = Inr (out, st') \<and> termux_connected st' \<and>
       sockets st' = sockets st \<and>
       (\<forall>c \<in> sockets st. delivered (sockets st) c out =
          [(''backend_status'', [JObj [(''connected'', JBool True)]])])"
    by (simp add: termux_on_connect_def termux_connected_def)
  show "\<exists>out st'. step st TermuxDisconnect = Inr (out, st') \<and> \<not> termux_connected st' \<and>
       sockets st' = sockets st \<and>
       (\<forall>c \<in> sockets st. delivered (sockets st) c out =
          [(''backend_status'', [JObj [(''connected'', JBool False)]])])"
    by (simp add: termux_on_disconnect_def termux_connected_def)
  show "step st TermuxConnectError = Inr ([], st)"
    by simp
next
  fix e out st'
  assume "step st e = Inr (out, st') \<and> termux_connected st' \<noteq> termux_connected st"
  then have "out = [IoEmit ''backend_status'' [JObj [(''connected'', JBool (termux_connected st'))]]]"
    using step_link_change by blast
  then show "\<forall>c \<in> sockets st. delivered (sockets st) c out =
          [(''backend_status'', [JObj [(''connected'', JBool (termux_connected st'))]])]"
    by simp
qed

theorem backend_status_broadcast_witness:
  "step \<lparr>sockets = {''A'', ''B''}, authenticatedClients = {''A''},
         termuxSocket = Some \<lparr>connected = False\<rparr>\<rparr> TermuxConnect
     = Inr ([IoEmit ''backend_status'' [JObj [(''connected'', JBool True)]]],
            \<lparr>sockets = {''A'', ''B''}, authenticatedClients = {''A''},
             termuxSocket = Some \<lparr>connected = True\<rparr>\<rparr>)
   \<and> ''B'' \<in> sockets \<lparr>sockets = {''A'', ''B''}, authenticatedClients = {''A''},
         termuxSocket = Some \<lparr>connected = False\<rparr>\<rparr>
   \<and> ''B'' \<notin> authenticatedClients \<lparr>sockets = {''A'', ''B''}, authenticatedClients = {''A''},
         termuxSocket = Some \<lparr>connected = False\<rparr>\<rparr>
   \<and> delivered {''A'', ''B''} ''B'' [IoEmit ''backend_status'' [JObj [(''connected'', JBool True)]]]
     = [(''backend_status'', [JObj [(''connected'', JBool True)]])]
   \<and> delivered {''A'', ''B''} ''A'' [IoEmit ''backend_status'' [JObj [(''connected'', JBool True)]]]
     = [(''backend_status'', [JObj [(''connected'', JBool True)]])]"
  using backend_status_broadcast
    [of "\<lparr>sockets = {''A'', ''B''}, authenticatedClients = {''A''},
          termuxSocket = Some \<lparr>connected = False\<rparr>\<rparr>"]
  by (simp add: termux_on_connect_def)


subsection \<open>Sessions\<close>

text \<open>
  C4, as claimed: handling \<open>new_session\<close> from an authenticated sender registers the
  session identifier in a Session Registry. The relay state is the connected sockets, the
  authorization set and the upstream socket; the run below reaches a state with socket
  \<open>c1\<close> authenticated and the link up, and handling \<open>new_session\<close> for session
  \<open>abc\<close> there forwards the payload and gives back that very state: no part of the
  relay records \<open>abc\<close>.
\<close>

theorem new_session_registers_nothing:
  "run (connectToTermux initial)
     [Connection ''c1'', TermuxConnect,
      Downstream ''c1'' ''authenticate'' (JObj [(''password'', JStr ''123456789'')])]
     = Inr \<lparr>sockets = {''c1''}, authenticatedClients = {''c1''},
            termuxSocket = Some \<lparr>connected = True\<rparr>\<rparr>
   \<and> step \<lparr>sockets = {''c1''}, authenticatedClients = {''c1''},
            termuxSocket = Some \<lparr>connected = True\<rparr>\<rparr>
         (Downstream ''c1'' ''new_session'' (JObj [(''sessionId'', JStr ''abc'')]))
     = Inr ([TermuxEmit ''new_session'' [JObj [(''sessionId'', JStr ''abc'')]]],
            \<lparr>sockets = {''c1''}, authenticatedClients = {''c1''},
             termuxSocket = Some \<lparr>connected = True\<rparr>\<rparr>)"
  by (simp add: initial_def connectToTermux_def receive_def socket_on_def on_authenticate_def
      PASSWORD_def on_new_session_def termux_connected_def termux_on_connect_def)

text \<open>
  C4, amended: the relay keeps no registry of sessions. Handling \<open>new_session\<close> or
  \<open>close_session\<close>, with any payload, leaves the relay state exactly as it was. Its only
  effect is one upstream emit of the same name carrying the payload, made when the
  sender is connected and in the authorization set and the link is connected; in every
  other case it emits nothing. So \<open>new_session\<close> followed by \<open>close_session\<close> ends in
  the state it started from.
\<close>

theorem session_events_keep_state:
  "step st (Downstream sid ''new_session'' data) =
     Inr (if sid \<in> sockets st \<and> sid \<in> authenticatedClients st \<and> termux_connected st
          then [TermuxEmit ''new_session'' [data]] else [], st) \<and>
   step st (Downstream sid ''close_session'' data') =
     Inr (if sid \<in> sockets st \<and> sid \<in> authenticatedClients st \<and> termux_connected st
          then [TermuxEmit ''close_session'' [data']] else [], st) \<and>
   run st [Downstream sid ''new_session'' data, Downstream sid ''close_session'' data'] = Inr st"
  by (simp add: receive_def socket_on_def on_new_session_def on_close_session_def)

subsection \<open>Field names of the payloads\<close>

text \<open>
  C8, as claimed: in every control event a browser client sends, and in the \<open>output\<close>
  event it receives, the session identifier is in the field \<open>sessionId\<close>. The embedded
  client opening a terminal with identifier \<open>abc\<close> sends a \<open>new_session\<close> payload whose
  only field is \<open>session_id\<close>; it has no field \<open>sessionId\<close>. And an \<open>output\<close> payload
  that names the session in \<open>sessionId\<close> is not written to the terminal \<open>abc\<close> the
  client holds, while one that names it in \<open>session_id\<close> is. (The table holds the one
  terminal \<open>abc\<close>; its lookup is written out for the keys that occur.)
\<close>

theorem client_payload_has_no_sessionId:
  "createTerminal True True ''abc'' = Some (''new_session'', JObj [(''session_id'', JStr ''abc'')])
   \<and> field_names (JObj [(''session_id'', JStr ''abc'')]) = [''session_id'']
   \<and> get_prop (JObj [(''session_id'', JStr ''abc'')]) ''sessionId'' = Inr JUndefined
   \<and> client_on_output
        (\<lambda>k. if k = JStr ''abc'' then Some (Terminal ''term-abc'')
             else if k = JStr ''constructor'' then Some Inherited else None)
        (JObj [(''sessionId'', JStr ''abc''), (''data'', JStr ''file1'')]) = Inr None
   \<and> client_on_output
        (\<lambda>k. if k = JStr ''abc'' then Some (Terminal ''term-abc'')
             else if k = JStr ''constructor'' then Some Inherited else None)
        (JObj [(''session_id'', JStr ''abc''), (''data'', JStr ''file1'')])
      = Inr (Some (''term-abc'', JStr ''file1''))"
  by (simp add: createTerminal_def client_on_output_def)

text \<open>
  The listener does throw when the session identifier names an inherited member of the
  table, and when the payload is \<open>null\<close> or missing.
\<close>

lemma client_on_output_throws:
  "client_on_output
     (\<lambda>k. if k = JStr ''abc'' then Some (Terminal ''term-abc'')
          else if k = JStr ''constructor'' then Some Inherited else None)
     (JObj [(''session_id'', JStr ''constructor''), (''data'', JStr ''file1'')]) = Inl TypeError"
  "client_on_output terminals JNull = Inl TypeError"
  "client_on_output terminals JUndefined = Inl TypeError"
  by (simp_all add: client_on_output_def)

text \<open>
  C8, amended: the embedded client names the session identifier \<open>session_id\<close>. Its
  payloads are \<open>{session_id}\<close> for \<open>new_session\<close> and \<open>close_session\<close>,
  \<open>{session_id, data}\<close> for \<open>input\<close>, \<open>{session_id, signal}\<close> for \<open>signal\<close> and
  \<open>{session_id, rows, cols}\<close> for \<open>resize\<close>. For an authenticated sender with the link
  connected, the relay passes each of the five upstream as it is, with these names. The
  client's \<open>output\<close> listener looks the terminal up under the value of the field
  \<open>session_id\<close>: when it finds a terminal of its own it writes the value of the field
  \<open>data\<close> to it, when it finds nothing it does nothing, and when it finds an inherited
  member of the table it throws.
\<close>

theorem client_payload_field_names:
  "createTerminal True True s = Some (''new_session'', JObj [(''session_id'', JStr s)]) \<and>
   closeTerminal (Suc (Suc n)) s = Some (''close_session'', JObj [(''session_id'', JStr s)]) \<and>
   onData s d =
     (if d = [CHR 0x03]
      then (''signal'', JObj [(''session_id'', JStr s), (''signal'', JNum 2)])
      else (''input'', JObj [(''session_id'', JStr s), (''data'', JStr d)])) \<and>
   onResize s rows cols =
     (''resize'', JObj [(''session_id'', JStr s), (''rows'', JNum rows), (''cols'', JNum cols)]) \<and>
   fst (onData s d) = (if d = [CHR 0x03] then ''signal'' else ''input'') \<and>
   field_names (snd (onData s d)) =
     (if d = [CHR 0x03] then [''session_id'', ''signal''] else [''session_id'', ''data'']) \<and>
   fst (onResize s rows cols) = ''resize'' \<and>
   field_names (snd (onResize s rows cols)) = [''session_id'', ''rows'', ''cols''] \<and>
   get_prop (snd (onData s d)) ''session_id'' = Inr (JStr s) \<and>
   get_prop (snd (onResize s rows cols)) ''session_id'' = Inr (JStr s) \<and>
   (sid \<in> authenticatedClients st \<and> termux_connected st \<longrightarrow>
      receive st sid ''new_session'' (JObj [(''session_id'', JStr s)]) =
        Inr ([TermuxEmit ''new_session'' [JObj [(''session_id'', JStr s)]]], st) \<and>
      receive st sid ''close_session'' (JObj [(''session_id'', JStr s)]) =
        Inr ([TermuxEmit ''close_session'' [JObj [(''session_id'', JStr s)]]], st) \<and>
      receive st sid (fst (onData s d)) (snd (onData s d)) =
        Inr ([TermuxEmit (fst (onData s d)) [snd (onData s d)]], st) \<and>
      receive st sid (fst (onResize s rows cols)) (snd (onResize s rows cols)) =
        Inr ([TermuxEmit ''resize''
                [JObj [(''session_id'', JStr s), (''rows'', JNum rows), (''cols'', JNum cols)]]], st)) \<and>
   client_on_output terminals (JObj [(''session_id'', k), (''data'', v)]) =
     (case terminals k of
        None \<Rightarrow> Inr None
      | Some Inherited \<Rightarrow> Inl TypeError
      | Some (Terminal term) \<Rightarrow> Inr (Some (term, v)))"
proof -
  have ev: "fst (onData s d) \<in> set control_events" "fst (onResize s rows cols) \<in> set control_events"
    "''new_session'' \<in> set control_events" "''close_session'' \<in> set control_events"
    by (simp_all add: onData_def onResize_def control_events_def)
  have fwd: "sid \<in> authenticatedClients st \<and> termux_connected st \<longrightarrow>
      receive st sid ''new_session'' (JObj [(''session_id'', JStr s)]) =
        Inr ([TermuxEmit ''new_session'' [JObj [(''session_id'', JStr s)]]], st) \<and>
      receive st sid ''close_session'' (JObj [(''session_id'', JStr s)]) =
        Inr ([TermuxEmit ''close_session'' [JObj [(''session_id'', JStr s)]]], st) \<and>
      receive st sid (fst (onData s d)) (snd (onData s d)) =
        Inr ([TermuxEmit (fst (onData s d)) [snd (onData s d)]], st) \<and>
      receive st sid (fst (onResize s rows cols)) (snd (onResize s rows cols)) =
        Inr ([TermuxEmit ''resize''
                [JObj [(''session_id'', JStr s), (''rows'', JNum rows), (''cols'', JNum cols)]]], st)"
    using ev by (simp add: receive_control) (simp add: onResize_def)
  have out: "client_on_output terminals (JObj [(''session_id'', k), (''data'', v)]) =
     (case terminals k of
        None \<Rightarrow> Inr None
      | Some Inherited \<Rightarrow> Inl TypeError
      | Some (Terminal term) \<Rightarrow> Inr (Some (term, v)))"
    by (simp add: client_on_output_def split: option.split slot.split)
  have rest: "createTerminal True True s = Some (''new_session'', JObj [(''session_id'', JStr s)])"
    "closeTerminal (Suc (Suc n)) s = Some (''close_session'', JObj [(''session_id'', JStr s)])"
    "onData s d =
     (if d = [CHR 0x03]
      then (''signal'', JObj [(''session_id'', JStr s), (''signal'', JNum 2)])
      else (''input'', JObj [(''session_id'', JStr s), (''data'', JStr d)]))"
    "onResize s rows cols =
     (''resize'', JObj [(''session_id'', JStr s), (''rows'', JNum rows), (''cols'', JNum cols)])"
    "fst (onData s d) = (if d = [CHR 0x03] then ''signal'' else ''input'')"
    "field_names (snd (onData s d)) =
     (if d = [CHR 0x03] then [''session_id'', ''signal''] else [''session_id'', ''data''])"
    "fst (onResize s rows cols) = ''resize''"
    "field_names (snd (onResize s rows cols)) = [''session_id'', ''rows'', ''cols'']"
    "get_prop (snd (onData s d)) ''session_id'' = Inr (JStr s)"
    "get_prop (snd (onResize s rows cols)) ''session_id'' = Inr (JStr s)"
    by (simp_all add: createTerminal_def closeTerminal_def onData_def onResize_def)
  from rest fwd out show ?thesis by blast
qed

theorem client_payload_field_names_witness:
  "''c1'' \<in> authenticatedClients
      \<lparr>sockets = {''c1''}, authenticatedClients = {''c1''}, termuxSocket = Some \<lparr>connected = True\<rparr>\<rparr>
   \<and> termux_connected
      \<lparr>sockets = {''c1''}, authenticatedClients = {''c1''}, termuxSocket = Some \<lparr>connected = True\<rparr>\<rparr>
   \<and> onData ''abc'' ''ls'' = (''input'', JObj [(''session_id'', JStr ''abc''), (''data'', JStr ''ls'')])
   \<and> receive \<lparr>sockets = {''c1''}, authenticatedClients = {''c1''}, termuxSocket = Some \<lparr>connected = True\<rparr>\<rparr>
        ''c1'' ''input'' (JObj [(''session_id'', JStr ''abc''), (''data'', JStr ''ls'')])
      = Inr ([TermuxEmit ''input'' [JObj [(''session_id'', JStr ''abc''), (''data'', JStr ''ls'')]]],
             \<lparr>sockets = {''c1''}, authenticatedClients = {''c1''},
              termuxSocket = Some \<lparr>connected = True\<rparr>\<rparr>)
   \<and> receive \<lparr>sockets = {''c1''}, authenticatedClients = {''c1''}, termuxSocket = Some \<lparr>connected = True\<rparr>\<rparr>
        ''c1'' ''new_session'' (JObj [(''session_id'', JStr ''abc'')])
      = Inr ([TermuxEmit ''new_session'' [JObj [(''session_id'', JStr ''abc'')]]],
             \<lparr>sockets = {''c1''}, authenticatedClients = {''c1''},
              termuxSocket = Some \<lparr>connected = True\<rparr>\<rparr>)"
proof -
  have a: "''c1'' \<in> authenticatedClients
      \<lparr>sockets = {''c1''}, authenticatedClients = {''c1''}, termuxSocket = Some \<lparr>connected = True\<rparr>\<rparr>"
    by simp
  have up: "termux_connected
      \<lparr>sockets = {''c1''}, authenticatedClients = {''c1''}, termuxSocket = Some \<lparr>connected = True\<rparr>\<rparr>"
    by (simp add: termux_connected_def)
  from client_payload_field_names
    [where s = "''abc''" and d = "''ls''" and sid = "''c1''" and n = 0 and rows = 24 and cols = 80
       and st = "\<lparr>sockets = {''c1''}, authenticatedClients = {''c1''},
                  termuxSocket = Some \<lparr>connected = True\<rparr>\<rparr>"
       and terminals = "\<lambda>k. None :: unit slot option" and k = JUndefined and v = JUndefined]
    a up
  show ?thesis by (simp add: onData_def)
qed

end
